theory Spec2Isabelle
  imports Main
begin

section \<open>The log-dispatch pipeline of error-logging-service\<close>

text \<open>
  A shallow embedding of \<^verbatim>\<open>src/core/LogLevel.ts\<close>, \<^verbatim>\<open>src/core/LogEntry.ts\<close>,
  \<^verbatim>\<open>src/plugins/Plugin.ts\<close>, \<^verbatim>\<open>src/transports/Transport.ts\<close>,
  \<^verbatim>\<open>src/transports/ConsoleTransport.ts\<close> and \<^verbatim>\<open>src/core/Logger.ts\<close>.

  The spec speaks of severities, records, stages and backends; the code calls them
  levels, entries, plugins and transports. The definitions keep the code's names.

  JavaScript runs one task at a time. A logging call is followed here from its start to
  the settling of everything it started: the calls it makes on plugins, transports and
  the console, in the order in which the code makes them, and what each of them yields.
  Other tasks that may run while \<^verbatim>\<open>log\<close> waits at an \<^verbatim>\<open>await\<close> are not part of the
  model.
\<close>

subsection \<open>LogLevel.ts\<close>

datatype LogLevel = DEBUG | INFO | WARN | ERROR | FATAL

text \<open>The numeric value of each enum member; \<^verbatim>\<open>level < minLevel\<close> compares these.\<close>

fun level_value :: "LogLevel \<Rightarrow> nat" where
  "level_value DEBUG = 0"
| "level_value INFO = 1"
| "level_value WARN = 2"
| "level_value ERROR = 3"
| "level_value FATAL = 4"

fun LOG_LEVEL_LABELS :: "LogLevel \<Rightarrow> string" where
  "LOG_LEVEL_LABELS DEBUG = ''DEBUG''"
| "LOG_LEVEL_LABELS INFO = ''INFO''"
| "LOG_LEVEL_LABELS WARN = ''WARN''"
| "LOG_LEVEL_LABELS ERROR = ''ERROR''"
| "LOG_LEVEL_LABELS FATAL = ''FATAL''"

subsection \<open>Values, errors and entries (LogEntry.ts, Transport.ts)\<close>

text \<open>
  The values a context object holds (\<^verbatim>\<open>Record<string, unknown>\<close>), as far as the
  examples of the repository use them. A context is an association list: a JavaScript
  object keeps its keys in insertion order.
\<close>

datatype js_value = JUndefined | JNull | JBool bool | JNum int | JStr string

type_synonym js_object = "(string \<times> js_value) list"

text \<open>
  A \<^verbatim>\<open>Date\<close> is only ever read through \<^verbatim>\<open>toISOString()\<close> in this repository, so an
  instant is represented by that rendering.
\<close>

datatype Date = Date (toISOString: string)

text \<open>
  The errors that occur: \<^verbatim>\<open>new Error(message)\<close>, the \<^verbatim>\<open>TypeError\<close> the runtime
  raises when something that is not a function is called, and \<^verbatim>\<open>TransportError\<close> of
  Transport.ts with its fields \<^verbatim>\<open>message\<close>, \<^verbatim>\<open>transportName\<close>, \<^verbatim>\<open>entry\<close> and
  \<^verbatim>\<open>cause\<close>. A \<^verbatim>\<open>LogEntry\<close> has exactly the five fields of the interface; \<^verbatim>\<open>error\<close>
  and \<^verbatim>\<open>context\<close> are optional (\<open>None\<close> is \<^verbatim>\<open>undefined\<close>). The field \<^verbatim>\<open>context\<close> is
  written \<open>context'\<close>, the plain word being a keyword of the theory language.
\<close>

datatype js_error =
    Error string
  | TypeError string
  | TransportError string string LogEntry js_error
and LogEntry =
    LogEntry (level: LogLevel) (message: string) (timestamp: Date)
             (error: "js_error option") (context': "js_object option")

fun error_message :: "js_error \<Rightarrow> string" where
  "error_message (Error m) = m"
| "error_message (TypeError m) = m"
| "error_message (TransportError m n e c) = m"

text \<open>What a call does to its caller: it returns a value or throws.\<close>

datatype 'a js_result = Returns 'a | Throws js_error

text \<open>The settled state of a \<^verbatim>\<open>Promise<void>\<close>.\<close>

datatype promise = Fulfilled | RejectedWith js_error

text \<open>
  \<^verbatim>\<open>createLogEntry(params)\<close>: the first argument is the instant \<^verbatim>\<open>new Date()\<close> yields
  at the call; the other four are the fields of \<^verbatim>\<open>params\<close>.
\<close>

definition createLogEntry ::
  "Date \<Rightarrow> LogLevel \<Rightarrow> string \<Rightarrow> js_error option \<Rightarrow> js_object option \<Rightarrow> LogEntry" where
  "createLogEntry now lvl msg err ctx = LogEntry lvl msg now err ctx"

subsection \<open>Plugin.ts and Transport.ts: the two contracts\<close>

text \<open>
  Plugins and transports are supplied by the user and may have effects of their own
  (a closure's variables, a network, a console). These live in a world of type \<open>'w\<close> that
  the Logger never inspects; each call is modelled by its complete effect on the world
  and by what it yields.

  A plugin returns an entry, returns \<^verbatim>\<open>null\<close> (\<open>Returned None\<close>), throws, or returns a
  promise that rejects.
\<close>

datatype plugin_result =
    Returned "LogEntry option"
  | PluginThrew js_error
  | PluginRejected js_error

type_synonym 'w Plugin = "LogEntry \<Rightarrow> 'w \<Rightarrow> plugin_result \<times> 'w"

text \<open>
  \<^verbatim>\<open>send\<close> is typed \<^verbatim>\<open>Promise<void>\<close>: it yields a promise that fulfils or rejects. A
  \<^verbatim>\<open>send\<close> that is not declared \<^verbatim>\<open>async\<close> can also throw before it returns any
  promise (\<open>SendThrew\<close>).
\<close>

datatype send_result =
    SendResolved
  | SendRejected js_error
  | SendThrew js_error

record 'w Transport =
  name :: string
  send :: "LogEntry \<Rightarrow> 'w \<Rightarrow> send_result \<times> 'w"

subsection \<open>Logger.ts: configuration\<close>

text \<open>
  \<^verbatim>\<open>LoggerConfig\<close> has four optional fields; \<^verbatim>\<open>ResolvedConfig\<close> has the same four, all
  defined. The resolved record keeps the field names of the source, the optional one
  marks them with \<open>_opt\<close>. \<^verbatim>\<open>generateId\<close> is a function \<^verbatim>\<open>() => string\<close> that may draw on
  the world (a clock, a random source).
\<close>

record 'w LoggerConfig =
  minLevel_opt :: "LogLevel option"
  transports_opt :: "'w Transport list option"
  plugins_opt :: "'w Plugin list option"
  generateId_opt :: "('w \<Rightarrow> string \<times> 'w) option"

record 'w ResolvedConfig =
  minLevel :: LogLevel
  transports :: "'w Transport list"
  plugins :: "'w Plugin list"
  generateId :: "'w \<Rightarrow> string \<times> 'w"

record 'w Logger =
  config :: "'w ResolvedConfig"

text \<open>
  \<^verbatim>\<open>resolveConfig\<close>: \<^verbatim>\<open>??\<close> takes the right-hand side when the field is absent. The
  default of \<^verbatim>\<open>generateId\<close> is the imported \<^verbatim>\<open>uuidv4\<close>, which is not part of this
  repository and is taken as a parameter.
\<close>

definition resolveConfig :: "('w \<Rightarrow> string \<times> 'w) \<Rightarrow> 'w LoggerConfig \<Rightarrow> 'w ResolvedConfig" where
  "resolveConfig uuidv4 cfg =
     \<lparr> minLevel = (case minLevel_opt cfg of None \<Rightarrow> DEBUG | Some m \<Rightarrow> m),
       transports = (case transports_opt cfg of None \<Rightarrow> [] | Some ts \<Rightarrow> ts),
       plugins = (case plugins_opt cfg of None \<Rightarrow> [] | Some ps \<Rightarrow> ps),
       generateId = (case generateId_opt cfg of None \<Rightarrow> uuidv4 | Some g \<Rightarrow> g) \<rparr>"

text \<open>The private constructor.\<close>

definition Logger_new :: "('w \<Rightarrow> string \<times> 'w) \<Rightarrow> 'w LoggerConfig \<Rightarrow> 'w Logger" where
  "Logger_new uuidv4 cfg = \<lparr> config = resolveConfig uuidv4 cfg \<rparr>"

subsection \<open>Logger.ts: the singleton\<close>

text \<open>The static field \<^verbatim>\<open>Logger.instance\<close>; \<open>None\<close> is \<^verbatim>\<open>null\<close>.\<close>

record 'w Logger_static =
  "instance" :: "'w Logger option"

text \<open>
  A static method that throws leaves the static field as it was; the state after the
  call is returned next to the result.
\<close>

definition init ::
  "('w \<Rightarrow> string \<times> 'w) \<Rightarrow> 'w LoggerConfig \<Rightarrow> 'w Logger_static
     \<Rightarrow> 'w Logger js_result \<times> 'w Logger_static" where
  "init uuidv4 cfg S =
     (case instance S of
        Some l \<Rightarrow>
          (Throws (Error ''Logger is already initialized. Call Logger.getInstance() to get the existing instance.''), S)
      | None \<Rightarrow>
          (let l = Logger_new uuidv4 cfg in (Returns l, S\<lparr>instance := Some l\<rparr>)))"

definition getInstance :: "'w Logger_static \<Rightarrow> 'w Logger js_result" where
  "getInstance S =
     (case instance S of
        None \<Rightarrow> Throws (Error ''Logger is not initialized. Call Logger.init(config) first.'')
      | Some l \<Rightarrow> Returns l)"

definition reset :: "'w Logger_static \<Rightarrow> 'w Logger_static" where
  "reset S = S\<lparr>instance := None\<rparr>"

subsection \<open>Logger.ts: plugin and transport management\<close>

definition addPlugin :: "'w Plugin \<Rightarrow> 'w Logger \<Rightarrow> 'w Logger" where
  "addPlugin plugin l = l\<lparr>config := (config l)\<lparr>plugins := plugins (config l) @ [plugin]\<rparr>\<rparr>"

definition addTransport :: "'w Transport \<Rightarrow> 'w Logger \<Rightarrow> unit js_result \<times> 'w Logger" where
  "addTransport transport l =
     (let exists = list_ex (\<lambda>t. name t = name transport) (transports (config l)) in
      if exists
      then (Throws (Error (''Transport with name \"'' @ name transport @ ''\" is already registered.'')), l)
      else (Returns (),
            l\<lparr>config := (config l)\<lparr>transports := transports (config l) @ [transport]\<rparr>\<rparr>))"

definition removeTransport :: "string \<Rightarrow> 'w Logger \<Rightarrow> 'w Logger" where
  "removeTransport n l =
     l\<lparr>config := (config l)\<lparr>transports := filter (\<lambda>t. name t \<noteq> n) (transports (config l))\<rparr>\<rparr>"

subsection \<open>Logger.ts: the core\<close>

text \<open>
  What the Logger does to its collaborators is recorded as a list of events, oldest
  first: the record factory was called and gave this entry; the plugin at this position
  of \<^verbatim>\<open>config.plugins\<close> was called with this entry; \<^verbatim>\<open>send\<close> of the transport of this
  name was called with this entry; \<^verbatim>\<open>console.error\<close> was called with this text and
  this error.
\<close>

datatype event =
    Created LogEntry
  | PluginCalled nat LogEntry
  | SendCalled string LogEntry
  | ConsoleError string js_error

text \<open>
  The \<^verbatim>\<open>for...of\<close> loop of \<^verbatim>\<open>log\<close> over the plugins that remain, \<open>k\<close> being the
  position of the first of them. \<^verbatim>\<open>await plugin(processedEntry)\<close> yields the plugin's
  value, or throws inside \<^verbatim>\<open>log\<close> when the plugin throws or its promise rejects. The
  loop ends with \<open>Returns (Some e)\<close> when it runs to its end with \<^verbatim>\<open>processedEntry\<close>
  equal to \<open>e\<close>, with \<open>Returns None\<close> at the \<^verbatim>\<open>return\<close> on \<^verbatim>\<open>null\<close>, and with
  \<open>Throws\<close> when the \<^verbatim>\<open>await\<close> throws.

  Plugins act on the world only: a plugin that registers plugins or transports on the
  Logger while the loop runs is outside this model.
\<close>

fun log_plugins ::
  "'w Plugin list \<Rightarrow> nat \<Rightarrow> LogEntry \<Rightarrow> 'w \<Rightarrow> LogEntry option js_result \<times> event list \<times> 'w" where
  "log_plugins [] k processedEntry w = (Returns (Some processedEntry), [], w)"
| "log_plugins (plugin # rest) k processedEntry w =
     (case plugin processedEntry w of
        (Returned None, w') \<Rightarrow> (Returns None, [PluginCalled k processedEntry], w')
      | (Returned (Some e), w') \<Rightarrow>
          (case log_plugins rest (Suc k) e w' of
             (r, evs, w'') \<Rightarrow> (r, PluginCalled k processedEntry # evs, w''))
      | (PluginThrew err, w') \<Rightarrow> (Throws err, [PluginCalled k processedEntry], w')
      | (PluginRejected err, w') \<Rightarrow> (Throws err, [PluginCalled k processedEntry], w'))"

text \<open>
  The \<^verbatim>\<open>map\<close> of \<^verbatim>\<open>dispatch\<close>: the callback calls \<^verbatim>\<open>transport.send(entry)\<close> and
  attaches the \<^verbatim>\<open>catch\<close> handler to the promise it gets. A \<^verbatim>\<open>send\<close> that throws
  has given no promise: the exception leaves the callback and \<^verbatim>\<open>map\<close>, and the
  transports after it are not visited. The handlers of the promises made so far run
  later, whatever happened to \<^verbatim>\<open>map\<close>; so the \<^verbatim>\<open>send\<close> calls and the handlers'
  \<^verbatim>\<open>console.error\<close> calls are returned as two lists.
\<close>

fun dispatch_map ::
  "'w Transport list \<Rightarrow> LogEntry \<Rightarrow> 'w \<Rightarrow> unit js_result \<times> event list \<times> event list \<times> 'w" where
  "dispatch_map [] entry w = (Returns (), [], [], w)"
| "dispatch_map (transport # rest) entry w =
     (case send transport entry w of
        (SendThrew err, w') \<Rightarrow> (Throws err, [SendCalled (name transport) entry], [], w')
      | (SendResolved, w') \<Rightarrow>
          (case dispatch_map rest entry w' of
             (r, sends, reports, w'') \<Rightarrow>
               (r, SendCalled (name transport) entry # sends, reports, w''))
      | (SendRejected err, w') \<Rightarrow>
          (case dispatch_map rest entry w' of
             (r, sends, reports, w'') \<Rightarrow>
               (r, SendCalled (name transport) entry # sends,
                ConsoleError (''[Logger] Transport \"'' @ name transport @ ''\" failed:'') err # reports,
                w'')))"

text \<open>
  \<^verbatim>\<open>dispatch\<close>: the \<^verbatim>\<open>map\<close>, then \<^verbatim>\<open>Promise.allSettled\<close>, whose result is dropped.
\<close>

definition dispatch :: "'w Logger \<Rightarrow> LogEntry \<Rightarrow> 'w \<Rightarrow> unit js_result \<times> event list \<times> 'w" where
  "dispatch l entry w =
     (case dispatch_map (transports (config l)) entry w of
        (r, sends, reports, w') \<Rightarrow> (r, sends @ reports, w'))"

text \<open>
  \<^verbatim>\<open>log\<close> is declared \<^verbatim>\<open>async\<close>: calling it never throws; whatever its body throws
  settles the promise it returns. The arguments \<open>err\<close> and \<open>ctx\<close> are the two fields
  of \<^verbatim>\<open>extras\<close>, and \<open>now\<close> is the instant at which the entry would be created.
\<close>

definition log ::
  "'w Logger \<Rightarrow> LogLevel \<Rightarrow> string \<Rightarrow> js_error option \<Rightarrow> js_object option \<Rightarrow> Date \<Rightarrow> 'w
     \<Rightarrow> promise \<times> event list \<times> 'w" where
  "log l lvl msg err ctx now w =
     (if level_value lvl < level_value (minLevel (config l)) then (Fulfilled, [], w)
      else
        let entry = createLogEntry now lvl msg err ctx in
        (case log_plugins (plugins (config l)) 0 entry w of
           (Throws e, evs, w') \<Rightarrow> (RejectedWith e, Created entry # evs, w')
         | (Returns None, evs, w') \<Rightarrow> (Fulfilled, Created entry # evs, w')
         | (Returns (Some processedEntry), evs, w') \<Rightarrow>
             (case dispatch l processedEntry w' of
                (Throws e, evs', w'') \<Rightarrow> (RejectedWith e, Created entry # evs @ evs', w'')
              | (Returns u, evs', w'') \<Rightarrow> (Fulfilled, Created entry # evs @ evs', w''))))"

subsection \<open>Logger.ts: the public logging methods\<close>

text \<open>
  What a caller can get from a call: \<^verbatim>\<open>undefined\<close> (the methods are typed \<^verbatim>\<open>void\<close>),
  a promise it could await or catch, or an exception.
\<close>

datatype returned_value = Undefined | PromiseOf promise

record 'w outcome =
  returned :: "returned_value js_result"
  floating :: promise
  events :: "event list"
  world :: 'w

text \<open>
  Each public method is the statement \<^verbatim>\<open>this.log(...);\<close> and nothing else: the promise
  of \<^verbatim>\<open>log\<close> is neither awaited nor returned. It is kept here as \<open>floating\<close>, the
  promise nobody holds.
\<close>

definition fire_and_forget :: "promise \<times> event list \<times> 'w \<Rightarrow> 'w outcome" where
  "fire_and_forget r =
     (case r of (p, evs, w') \<Rightarrow>
        \<lparr> returned = Returns Undefined, floating = p, events = evs, world = w' \<rparr>)"

definition debug :: "'w Logger \<Rightarrow> string \<Rightarrow> js_object option \<Rightarrow> Date \<Rightarrow> 'w \<Rightarrow> 'w outcome" where
  "debug l msg ctx now w = fire_and_forget (log l DEBUG msg None ctx now w)"

definition info :: "'w Logger \<Rightarrow> string \<Rightarrow> js_object option \<Rightarrow> Date \<Rightarrow> 'w \<Rightarrow> 'w outcome" where
  "info l msg ctx now w = fire_and_forget (log l INFO msg None ctx now w)"

definition warn :: "'w Logger \<Rightarrow> string \<Rightarrow> js_object option \<Rightarrow> Date \<Rightarrow> 'w \<Rightarrow> 'w outcome" where
  "warn l msg ctx now w = fire_and_forget (log l WARN msg None ctx now w)"

text \<open>The method \<^verbatim>\<open>error\<close>; the name \<open>error\<close> is the field of \<open>LogEntry\<close>.\<close>

definition Logger_error ::
  "'w Logger \<Rightarrow> string \<Rightarrow> js_error option \<Rightarrow> js_object option \<Rightarrow> Date \<Rightarrow> 'w \<Rightarrow> 'w outcome" where
  "Logger_error l msg err ctx now w = fire_and_forget (log l ERROR msg err ctx now w)"

definition fatal ::
  "'w Logger \<Rightarrow> string \<Rightarrow> js_error option \<Rightarrow> js_object option \<Rightarrow> Date \<Rightarrow> 'w \<Rightarrow> 'w outcome" where
  "fatal l msg err ctx now w = fire_and_forget (log l FATAL msg err ctx now w)"

text \<open>A logging call is one of the five methods with its arguments.\<close>

datatype LogCall =
    Debug string "js_object option"
  | Info string "js_object option"
  | Warn string "js_object option"
  | ErrorCall string "js_error option" "js_object option"
  | Fatal string "js_error option" "js_object option"

fun call :: "'w Logger \<Rightarrow> LogCall \<Rightarrow> Date \<Rightarrow> 'w \<Rightarrow> 'w outcome" where
  "call l (Debug msg ctx) now w = debug l msg ctx now w"
| "call l (Info msg ctx) now w = info l msg ctx now w"
| "call l (Warn msg ctx) now w = warn l msg ctx now w"
| "call l (ErrorCall msg err ctx) now w = Logger_error l msg err ctx now w"
| "call l (Fatal msg err ctx) now w = fatal l msg err ctx now w"

text \<open>The level a call logs at, and the entry the record factory makes for it.\<close>

fun call_level :: "LogCall \<Rightarrow> LogLevel" where
  "call_level (Debug msg ctx) = DEBUG"
| "call_level (Info msg ctx) = INFO"
| "call_level (Warn msg ctx) = WARN"
| "call_level (ErrorCall msg err ctx) = ERROR"
| "call_level (Fatal msg err ctx) = FATAL"

fun call_entry :: "LogCall \<Rightarrow> Date \<Rightarrow> LogEntry" where
  "call_entry (Debug msg ctx) now = createLogEntry now DEBUG msg None ctx"
| "call_entry (Info msg ctx) now = createLogEntry now INFO msg None ctx"
| "call_entry (Warn msg ctx) now = createLogEntry now WARN msg None ctx"
| "call_entry (ErrorCall msg err ctx) now = createLogEntry now ERROR msg err ctx"
| "call_entry (Fatal msg err ctx) now = createLogEntry now FATAL msg err ctx"

text \<open>
  A sequence of logging calls on one Logger, each with the instant at which it is made,
  the world passing from one call to the next.
\<close>

fun calls :: "'w Logger \<Rightarrow> (LogCall \<times> Date) list \<Rightarrow> 'w \<Rightarrow> 'w outcome list" where
  "calls l [] w = []"
| "calls l ((c, now) # cs) w = (let out = call l c now w in out # calls l cs (world out))"

subsection \<open>ConsoleTransport.ts\<close>

text \<open>
  The four console methods the transport binds, and the console as the list of calls made
  on it: the method and the one argument.
\<close>

datatype console_method = console_debug | console_info | console_warn | console_error

type_synonym console = "(console_method \<times> string) list"

text \<open>The formatter is the user's function and may throw.\<close>

record ConsoleTransportOptions =
  formatter :: "(LogEntry \<Rightarrow> string js_result) option"

definition defaultFormatter :: "LogEntry \<Rightarrow> string" where
  "defaultFormatter entry =
     (let label = LOG_LEVEL_LABELS (level entry);
          time = toISOString (timestamp entry);
          errorPart = (case error entry of Some e \<Rightarrow> '' | '' @ error_message e | None \<Rightarrow> [])
      in ''['' @ time @ ''] ['' @ label @ ''] '' @ message entry @ errorPart)"

text \<open>
  \<^verbatim>\<open>methods[level]\<close>: the object literal has the four keys DEBUG, INFO, WARN and ERROR;
  a lookup of any other key gives \<^verbatim>\<open>undefined\<close> (\<open>None\<close>).
\<close>

fun resolveConsoleMethod :: "LogLevel \<Rightarrow> console_method option" where
  "resolveConsoleMethod DEBUG = Some console_debug"
| "resolveConsoleMethod INFO = Some console_info"
| "resolveConsoleMethod WARN = Some console_warn"
| "resolveConsoleMethod ERROR = Some console_error"
| "resolveConsoleMethod lvl = None"

text \<open>
  The body of the \<^verbatim>\<open>try\<close> block of \<^verbatim>\<open>send\<close>. Calling \<^verbatim>\<open>undefined\<close> raises a
  \<^verbatim>\<open>TypeError\<close>.
\<close>

definition send_try :: "ConsoleTransportOptions \<Rightarrow> LogEntry \<Rightarrow> console \<Rightarrow> unit js_result \<times> console" where
  "send_try options entry con =
     (case (case formatter options of Some f \<Rightarrow> f entry | None \<Rightarrow> Returns (defaultFormatter entry)) of
        Throws e \<Rightarrow> (Throws e, con)
      | Returns msg \<Rightarrow>
          (case resolveConsoleMethod (level entry) of
             None \<Rightarrow> (Throws (TypeError ''consoleMethod is not a function''), con)
           | Some consoleMethod \<Rightarrow> (Returns (), con @ [(consoleMethod, msg)])))"

text \<open>
  \<^verbatim>\<open>send\<close> is \<^verbatim>\<open>async\<close>: the \<^verbatim>\<open>TransportError\<close> thrown in the \<^verbatim>\<open>catch\<close> block
  rejects the promise.
\<close>

definition ConsoleTransport_send :: "ConsoleTransportOptions \<Rightarrow> LogEntry \<Rightarrow> console \<Rightarrow> send_result \<times> console" where
  "ConsoleTransport_send options entry con =
     (case send_try options entry con of
        (Throws e, con') \<Rightarrow>
          (SendRejected (TransportError ''ConsoleTransport failed to send entry'' ''console'' entry e), con')
      | (Returns u, con') \<Rightarrow> (SendResolved, con'))"

definition ConsoleTransport :: "ConsoleTransportOptions \<Rightarrow> console Transport" where
  "ConsoleTransport options = \<lparr> name = ''console'', send = ConsoleTransport_send options \<rparr>"

subsection \<open>Reading a list of events\<close>

text \<open>The positions of the plugins that were called, and the \<^verbatim>\<open>send\<close> calls, in order.\<close>

fun plugin_positions :: "event list \<Rightarrow> nat list" where
  "plugin_positions [] = []"
| "plugin_positions (PluginCalled k e # evs) = k # plugin_positions evs"
| "plugin_positions (ev # evs) = plugin_positions evs"

fun send_calls :: "event list \<Rightarrow> (string \<times> LogEntry) list" where
  "send_calls [] = []"
| "send_calls (SendCalled n e # evs) = (n, e) # send_calls evs"
| "send_calls (ev # evs) = send_calls evs"

subsection \<open>Describing one run\<close>

text \<open>
  Two descriptions of what the collaborators do in one run, written without the
  Logger's own loops, to state against them what the Logger does.

  \<open>chain ps sts\<close>: the list \<open>sts\<close> holds the entry and the world before each plugin
  of \<open>ps\<close> and, last, after all of them; each plugin, called with the entry and in the
  world before it, returns the entry and leaves the world that stand next in the list.
  So every plugin of \<open>ps\<close> hands an entry on, and each gets what the one before it
  returned.
\<close>

fun chain :: "'w Plugin list \<Rightarrow> (LogEntry \<times> 'w) list \<Rightarrow> bool" where
  "chain [] [s] = True"
| "chain (plugin # rest) (s # s' # sts) =
     (plugin (fst s) (snd s) = (Returned (Some (fst s')), snd s') \<and> chain rest (s' # sts))"
| "chain ps sts = False"

text \<open>The events of calling the plugins at the positions \<open>k, k + 1, ...\<close> with these entries.\<close>

fun plugin_calls :: "nat \<Rightarrow> LogEntry list \<Rightarrow> event list" where
  "plugin_calls k [] = []"
| "plugin_calls k (e # es) = PluginCalled k e # plugin_calls (Suc k) es"

text \<open>
  \<open>send_outcomes ts entry w\<close>: what \<^verbatim>\<open>send\<close> of each transport of \<open>ts\<close> yields when
  all of them are called with \<open>entry\<close>, one after the other in the order of the list,
  starting in the world \<open>w\<close>; and the world after the last of them.
\<close>

fun send_outcomes :: "'w Transport list \<Rightarrow> LogEntry \<Rightarrow> 'w \<Rightarrow> send_result list \<times> 'w" where
  "send_outcomes [] entry w = ([], w)"
| "send_outcomes (transport # rest) entry w =
     (case send transport entry w of
        (r, w') \<Rightarrow> (case send_outcomes rest entry w' of (rs, w'') \<Rightarrow> (r # rs, w'')))"

subsection \<open>Sequences of calls on the singleton\<close>

text \<open>
  A caller's sequence of static calls. Only the static field matters for what follows,
  so a step gives the state after the call.
\<close>

datatype 'w lifecycle_op = Init "'w LoggerConfig" | GetInstance | Reset

fun lifecycle_step :: "('w \<Rightarrow> string \<times> 'w) \<Rightarrow> 'w lifecycle_op \<Rightarrow> 'w Logger_static \<Rightarrow> 'w Logger_static" where
  "lifecycle_step uuidv4 (Init cfg) S = snd (init uuidv4 cfg S)"
| "lifecycle_step uuidv4 GetInstance S = S"
| "lifecycle_step uuidv4 Reset S = reset S"

fun lifecycle_run :: "('w \<Rightarrow> string \<times> 'w) \<Rightarrow> 'w lifecycle_op list \<Rightarrow> 'w Logger_static \<Rightarrow> 'w Logger_static" where
  "lifecycle_run uuidv4 [] S = S"
| "lifecycle_run uuidv4 (op # ops) S = lifecycle_run uuidv4 ops (lifecycle_step uuidv4 op S)"

subsection \<open>Fixtures of Logger.test.ts\<close>

text \<open>
  \<^verbatim>\<open>createMockTransport(name)\<close> pushes every entry it is sent onto its \<^verbatim>\<open>entries\<close>
  array. The world of the tests is the list of these deliveries, each with the name of
  the mock that got it.
\<close>

type_synonym test_world = "(string \<times> LogEntry) list"

definition createMockTransport :: "string \<Rightarrow> test_world Transport" where
  "createMockTransport n = \<lparr> name = n, send = (\<lambda>entry w. (SendResolved, w @ [(n, entry)])) \<rparr>"

text \<open>The transport of the test "should continue sending to other transports if one fails".\<close>

definition failing :: "test_world Transport" where
  "failing = \<lparr> name = ''failing'', send = (\<lambda>entry w. (SendRejected (Error ''Network error''), w)) \<rparr>"

text \<open>
  A transport whose \<^verbatim>\<open>send\<close> is an ordinary function that throws:
  \<^verbatim>\<open>{name: "throwing", send: () => { throw new Error("Not connected") }}\<close>.
\<close>

definition throwing :: "test_world Transport" where
  "throwing = \<lparr> name = ''throwing'', send = (\<lambda>entry w. (SendThrew (Error ''Not connected''), w)) \<rparr>"

text \<open>
  A transport whose outcome depends on the world: its promise rejects while at most one
  delivery has been made, and fulfils afterwards.
\<close>

definition flaky :: "test_world Transport" where
  "flaky = \<lparr> name = ''flaky'',
             send = (\<lambda>entry w. if length w \<le> 1 then (SendRejected (Error ''Network error''), w)
                               else (SendResolved, w @ [(''flaky'', entry)])) \<rparr>"

text \<open>The plugins \<^verbatim>\<open>() => null\<close> and \<^verbatim>\<open>(entry) => ({...entry, context: {enriched: true}})\<close>
  of the tests, and one that throws: \<^verbatim>\<open>() => { throw new Error("Plugin failed") }\<close>.\<close>

definition blockAll :: "test_world Plugin" where
  "blockAll entry w = (Returned None, w)"

definition enrich :: "test_world Plugin" where
  "enrich entry w =
     (Returned (Some (LogEntry (level entry) (message entry) (timestamp entry) (error entry)
        (Some [(''enriched'', JBool True)]))), w)"

definition brokenPlugin :: "test_world Plugin" where
  "brokenPlugin entry w = (PluginThrew (Error ''Plugin failed''), w)"

text \<open>A stand-in for \<^verbatim>\<open>uuidv4\<close>, and the instant of the examples.\<close>

definition test_uuidv4 :: "'w \<Rightarrow> string \<times> 'w" where
  "test_uuidv4 w = (''00000000-0000-4000-8000-000000000000'', w)"

definition test_config ::
  "LogLevel \<Rightarrow> test_world Transport list \<Rightarrow> test_world Plugin list \<Rightarrow> test_world LoggerConfig" where
  "test_config lvl ts ps =
     \<lparr> minLevel_opt = Some lvl, transports_opt = Some ts, plugins_opt = Some ps,
       generateId_opt = None \<rparr>"

definition test_logger ::
  "LogLevel \<Rightarrow> test_world Transport list \<Rightarrow> test_world Plugin list \<Rightarrow> test_world Logger" where
  "test_logger lvl ts ps = Logger_new test_uuidv4 (test_config lvl ts ps)"

definition test_now :: Date where
  "test_now = Date ''2024-01-01T00:00:00.000Z''"

text \<open>
  The Logger of the README's quick start,
  \<^verbatim>\<open>Logger.init({transports: [new ConsoleTransport()]})\<close>; its world is the console.
\<close>

definition quickstart_logger :: "console Logger" where
  "quickstart_logger =
     Logger_new test_uuidv4
       \<lparr> minLevel_opt = None, transports_opt = Some [ConsoleTransport \<lparr> formatter = None \<rparr>],
         plugins_opt = None, generateId_opt = None \<rparr>"

section \<open>Properties\<close>

lemmas method_defs = debug_def info_def warn_def Logger_error_def fatal_def fire_and_forget_def

lemmas test_defs = test_logger_def test_config_def Logger_new_def resolveConfig_def

subsection \<open>The logging methods in terms of the loop and the fan-out\<close>

lemma call_log:
  "call l c now w =
     fire_and_forget
       (if level_value (call_level c) < level_value (minLevel (config l)) then (Fulfilled, [], w)
        else
          (case log_plugins (plugins (config l)) 0 (call_entry c now) w of
             (Throws e, evs, w') \<Rightarrow> (RejectedWith e, Created (call_entry c now) # evs, w')
           | (Returns None, evs, w') \<Rightarrow> (Fulfilled, Created (call_entry c now) # evs, w')
           | (Returns (Some processedEntry), evs, w') \<Rightarrow>
               (case dispatch l processedEntry w' of
                  (Throws e, evs', w'') \<Rightarrow> (RejectedWith e, Created (call_entry c now) # evs @ evs', w'')
                | (Returns u, evs', w'') \<Rightarrow> (Fulfilled, Created (call_entry c now) # evs @ evs', w''))))"
  by (cases c; hypsubst_thin; unfold call_entry.simps call_level.simps)
     (simp_all add: debug_def info_def warn_def Logger_error_def fatal_def log_def Let_def)

lemma plugin_positions_append:
  "plugin_positions (xs @ ys) = plugin_positions xs @ plugin_positions ys"
  by (induction xs rule: plugin_positions.induct) simp_all

lemma send_calls_append:
  "send_calls (xs @ ys) = send_calls xs @ send_calls ys"
  by (induction xs rule: send_calls.induct) simp_all

lemma upt_shift: "[k..<k + Suc m] = k # [Suc k..<Suc k + m]"
  using upt_conv_Cons [of k "k + Suc m"] by (simp del: upt_Suc)

subsection \<open>The plugin loop\<close>

text \<open>
  A chain whose front part runs to its end continues with the rest from the entry and
  the world the front part left.
\<close>

lemma log_plugins_append:
  "log_plugins pre k e w = (Returns (Some e1), evs, w1) \<Longrightarrow>
   log_plugins (pre @ rest) k e w
     = (case log_plugins rest (k + length pre) e1 w1 of (r, evs', w') \<Rightarrow> (r, evs @ evs', w'))"
proof (induction pre arbitrary: k e w evs)
  case Nil
  then show ?case by (auto split: prod.splits)
next
  case (Cons p pre)
  obtain r w' where p: "p e w = (r, w')" by (cases "p e w")
  show ?case
  proof (cases r)
    case (Returned eo)
    show ?thesis
    proof (cases eo)
      case None
      with Returned p Cons.prems show ?thesis by simp
    next
      case (Some e')
      obtain r2 evs2 w2 where rec: "log_plugins pre (Suc k) e' w' = (r2, evs2, w2)"
        by (cases "log_plugins pre (Suc k) e' w'")
      with Cons.prems p Returned Some
      have r2: "r2 = Returns (Some e1)" and ev: "evs = PluginCalled k e # evs2" and w2: "w2 = w1"
        by auto
      from Cons.IH [of "Suc k" e' w' evs2] rec r2 w2
      have "log_plugins (pre @ rest) (Suc k) e' w'
              = (case log_plugins rest (Suc k + length pre) e1 w1 of
                   (r, evs', w') \<Rightarrow> (r, evs2 @ evs', w'))"
        by simp
      with p Returned Some ev show ?thesis by (simp split: prod.splits)
    qed
  next
    case (PluginThrew err)
    with p Cons.prems show ?thesis by simp
  next
    case (PluginRejected err)
    with p Cons.prems show ?thesis by simp
  qed
qed

text \<open>
  The loop calls no transport, and the plugins it calls are those of the positions
  \<open>k, k + 1, ...\<close> without a gap; all of them when it runs to its end.
\<close>

lemma log_plugins_events:
  "log_plugins ps k e w = (r, evs, w') \<Longrightarrow>
   send_calls evs = [] \<and> (\<exists>m\<le>length ps. plugin_positions evs = [k..<k + m])
   \<and> (\<forall>e1. r = Returns (Some e1) \<longrightarrow> plugin_positions evs = [k..<k + length ps])"
proof (induction ps arbitrary: k e w r evs w')
  case Nil
  then show ?case by auto
next
  case (Cons p ps)
  obtain pr pw where p: "p e w = (pr, pw)" by (cases "p e w")
  have one: "\<exists>m\<le>length (p # ps). [k] = [k..<k + m]"
    by (rule exI [of _ 1]) simp
  show ?case
  proof (cases pr)
    case (Returned eo)
    show ?thesis
    proof (cases eo)
      case None
      with Returned p Cons.prems one show ?thesis by auto
    next
      case (Some e')
      obtain r2 evs2 w2 where rec: "log_plugins ps (Suc k) e' pw = (r2, evs2, w2)"
        by (cases "log_plugins ps (Suc k) e' pw")
      from Cons.prems p Returned Some rec
      have r: "r = r2" and ev: "evs = PluginCalled k e # evs2" by auto
      from Cons.IH [OF rec] obtain m where
        s: "send_calls evs2 = []" and m: "m \<le> length ps" "plugin_positions evs2 = [Suc k..<Suc k + m]"
        and full: "\<forall>e1. r2 = Returns (Some e1) \<longrightarrow> plugin_positions evs2 = [Suc k..<Suc k + length ps]"
        by blast
      have pp: "plugin_positions evs = k # plugin_positions evs2"
        using ev by simp
      have len: "k + length (p # ps) = k + Suc (length ps)"
        by simp
      have "plugin_positions evs = [k..<k + Suc m]"
        unfolding pp m(2) upt_shift ..
      moreover have "Suc m \<le> length (p # ps)" using m by simp
      moreover have "\<forall>e1. r = Returns (Some e1) \<longrightarrow> plugin_positions evs = [k..<k + length (p # ps)]"
      proof (intro allI impI)
        fix e1 assume "r = Returns (Some e1)"
        with full r have "plugin_positions evs2 = [Suc k..<Suc k + length ps]" by blast
        then show "plugin_positions evs = [k..<k + length (p # ps)]"
          unfolding pp len upt_shift by (rule arg_cong)
      qed
      moreover have "send_calls evs = []" using s ev by simp
      ultimately show ?thesis by blast
    qed
  next
    case (PluginThrew err)
    with p Cons.prems one show ?thesis by auto
  next
    case (PluginRejected err)
    with p Cons.prems one show ?thesis by auto
  qed
qed

subsection \<open>The fan-out\<close>

lemma dispatch_map_events:
  "dispatch_map ts e w = (r, sends, reports, w') \<Longrightarrow>
   plugin_positions sends = [] \<and> plugin_positions reports = [] \<and> send_calls reports = []"
proof (induction ts arbitrary: w r sends reports w')
  case Nil
  then show ?case by auto
next
  case (Cons t ts)
  obtain sr sw where s: "send t e w = (sr, sw)" by (cases "send t e w")
  obtain r2 s2 rep2 w2 where rec: "dispatch_map ts e sw = (r2, s2, rep2, w2)"
    by (cases "dispatch_map ts e sw")
  from Cons.IH [OF rec] Cons.prems s rec show ?case
    by (cases sr) auto
qed

lemma dispatch_map_append:
  "dispatch_map pre e w = (Returns (), sends, reports, w1) \<Longrightarrow>
   dispatch_map (pre @ rest) e w
     = (case dispatch_map rest e w1 of
          (r, sends', reports', w') \<Rightarrow> (r, sends @ sends', reports @ reports', w'))"
proof (induction pre arbitrary: w sends reports)
  case Nil
  then show ?case by (auto split: prod.splits)
next
  case (Cons t pre)
  obtain sr sw where s: "send t e w = (sr, sw)" by (cases "send t e w")
  obtain r2 s2 rep2 w2 where rec: "dispatch_map pre e sw = (r2, s2, rep2, w2)"
    by (cases "dispatch_map pre e sw")
  show ?case
  proof (cases sr)
    case SendResolved
    with Cons.prems s rec
    have "r2 = Returns ()" "sends = SendCalled (name t) e # s2" "reports = rep2" "w2 = w1"
      by auto
    with Cons.IH [of sw s2 rep2] rec s SendResolved show ?thesis
      by (simp split: prod.splits)
  next
    case (SendRejected err)
    with Cons.prems s rec
    have "r2 = Returns ()" "sends = SendCalled (name t) e # s2"
      "reports = ConsoleError (''[Logger] Transport \"'' @ name t @ ''\" failed:'') err # rep2" "w2 = w1"
      by auto
    with Cons.IH [of sw s2 rep2] rec s SendRejected show ?thesis
      by (simp split: prod.splits)
  next
    case (SendThrew err)
    with Cons.prems s show ?thesis by simp
  qed
qed

lemma dispatch_map_all_resolved:
  "send_outcomes ts e w = (replicate (length ts) SendResolved, w') \<Longrightarrow>
   dispatch_map ts e w = (Returns (), map (\<lambda>t. SendCalled (name t) e) ts, [], w')"
proof (induction ts arbitrary: w)
  case Nil
  then show ?case by simp
next
  case (Cons t ts)
  obtain r w1 where s: "send t e w = (r, w1)" by (cases "send t e w")
  obtain rs w2 where rec: "send_outcomes ts e w1 = (rs, w2)" by (cases "send_outcomes ts e w1")
  from Cons.prems s rec have "r = SendResolved" "rs = replicate (length ts) SendResolved" "w2 = w'"
    by simp_all
  with Cons.IH [of w1] s rec show ?case by simp
qed

lemma dispatch_map_one_rejected:
  "send_outcomes (pre @ t # post) e w
     = (replicate (length pre) SendResolved @ SendRejected err # replicate (length post) SendResolved, w') \<Longrightarrow>
   dispatch_map (pre @ t # post) e w
     = (Returns (), map (\<lambda>t. SendCalled (name t) e) (pre @ t # post),
        [ConsoleError (''[Logger] Transport \"'' @ name t @ ''\" failed:'') err], w')"
proof (induction pre arbitrary: w)
  case Nil
  obtain r w1 where s: "send t e w = (r, w1)" by (cases "send t e w")
  obtain rs w2 where rec: "send_outcomes post e w1 = (rs, w2)" by (cases "send_outcomes post e w1")
  from Nil s rec have "r = SendRejected err" "rs = replicate (length post) SendResolved" "w2 = w'"
    by simp_all
  with dispatch_map_all_resolved [of post e w1 w'] s rec show ?case by simp
next
  case (Cons p pre)
  obtain r w1 where s: "send p e w = (r, w1)" by (cases "send p e w")
  obtain rs w2 where rec: "send_outcomes (pre @ t # post) e w1 = (rs, w2)"
    by (cases "send_outcomes (pre @ t # post) e w1")
  from Cons.prems s rec have "r = SendResolved"
    "rs = replicate (length pre) SendResolved @ SendRejected err # replicate (length post) SendResolved"
    "w2 = w'"
    by simp_all
  with Cons.IH [of w1] s rec show ?case by simp
qed

subsection \<open>Fan-out isolation\<close>

text \<open>
  Claim C1. Let a call pass the level gate and its entry survive the plugins as \<open>e\<close>,
  and let the registered transports be \<open>pre\<close>, then \<open>t\<close>, then \<open>post\<close>. If in this run,
  the sends being made in turn from the world the plugins left, \<^verbatim>\<open>send\<close> of \<open>t\<close> gives
  a promise that rejects with \<open>err\<close> and \<^verbatim>\<open>send\<close> of every other transport gives a
  promise that fulfils (whatever any of them would do in another state of the world),
  then \<^verbatim>\<open>send\<close> is called with \<open>e\<close> on every registered transport (the failing one
  and all the others, before and after it), \<^verbatim>\<open>console.error\<close> is called once, with the
  text naming \<open>t\<close> and with \<open>err\<close>, the world is as the sends left it, the promise of
  \<^verbatim>\<open>log\<close> fulfils and the logging method returns normally.
\<close>

theorem C1_fan_out_isolation:
  assumes gate: "\<not> level_value (call_level c) < level_value (minLevel (config l))"
    and survives: "log_plugins (plugins (config l)) 0 (call_entry c now) w = (Returns (Some e), evs, w1)"
    and ts: "transports (config l) = pre @ t # post"
    and outcomes: "send_outcomes (transports (config l)) e w1
        = (replicate (length pre) SendResolved @ SendRejected err # replicate (length post) SendResolved, w2)"
  shows "call l c now w
           = \<lparr> returned = Returns Undefined, floating = Fulfilled,
               events = Created (call_entry c now) # evs
                          @ map (\<lambda>t. SendCalled (name t) e) (transports (config l))
                          @ [ConsoleError (''[Logger] Transport \"'' @ name t @ ''\" failed:'') err],
               world = w2 \<rparr>"
proof -
  from outcomes have "dispatch_map (pre @ t # post) e w1
       = (Returns (), map (\<lambda>t. SendCalled (name t) e) (pre @ t # post),
          [ConsoleError (''[Logger] Transport \"'' @ name t @ ''\" failed:'') err], w2)"
    unfolding ts by (rule dispatch_map_one_rejected)
  with gate survives ts show ?thesis
    by (simp add: call_log fire_and_forget_def dispatch_def)
qed

text \<open>
  The example has a transport that always fulfils, then \<open>flaky\<close>, whose outcome depends
  on the world and which rejects in this run, then another that always fulfils.
\<close>

theorem C1_fan_out_isolation_witness:
  "\<not> level_value (call_level (Warn ''z'' None))
       < level_value (minLevel (config (test_logger DEBUG
           [createMockTransport ''first'', flaky, createMockTransport ''working''] [])))
   \<and> log_plugins (plugins (config (test_logger DEBUG
           [createMockTransport ''first'', flaky, createMockTransport ''working''] [])))
        0 (call_entry (Warn ''z'' None) test_now) []
       = (Returns (Some (LogEntry WARN ''z'' test_now None None)), [], [])
   \<and> transports (config (test_logger DEBUG
           [createMockTransport ''first'', flaky, createMockTransport ''working''] []))
       = [createMockTransport ''first''] @ flaky # [createMockTransport ''working'']
   \<and> send_outcomes (transports (config (test_logger DEBUG
           [createMockTransport ''first'', flaky, createMockTransport ''working''] [])))
        (LogEntry WARN ''z'' test_now None None) []
       = (replicate (length [createMockTransport ''first'']) SendResolved
            @ SendRejected (Error ''Network error'')
            # replicate (length [createMockTransport ''working'']) SendResolved,
          [(''first'', LogEntry WARN ''z'' test_now None None),
           (''working'', LogEntry WARN ''z'' test_now None None)])
   \<and> fst (send flaky (LogEntry WARN ''z'' test_now None None)
              [(''a'', LogEntry WARN ''z'' test_now None None),
               (''b'', LogEntry WARN ''z'' test_now None None)]) = SendResolved
   \<and> call (test_logger DEBUG [createMockTransport ''first'', flaky, createMockTransport ''working''] [])
        (Warn ''z'' None) test_now []
       = \<lparr> returned = Returns Undefined, floating = Fulfilled,
           events = [Created (LogEntry WARN ''z'' test_now None None),
                     SendCalled ''first'' (LogEntry WARN ''z'' test_now None None),
                     SendCalled ''flaky'' (LogEntry WARN ''z'' test_now None None),
                     SendCalled ''working'' (LogEntry WARN ''z'' test_now None None),
                     ConsoleError ''[Logger] Transport \"flaky\" failed:'' (Error ''Network error'')],
           world = [(''first'', LogEntry WARN ''z'' test_now None None),
                    (''working'', LogEntry WARN ''z'' test_now None None)] \<rparr>"
  using C1_fan_out_isolation
    [of "Warn ''z'' None"
        "test_logger DEBUG [createMockTransport ''first'', flaky, createMockTransport ''working''] []"
        test_now "[]" "LogEntry WARN ''z'' test_now None None" "[]" "[]"
        "[createMockTransport ''first'']" flaky "[createMockTransport ''working'']"
        "Error ''Network error''"
        "[(''first'', LogEntry WARN ''z'' test_now None None),
          (''working'', LogEntry WARN ''z'' test_now None None)]"]
  by (simp add: test_defs createLogEntry_def createMockTransport_def flaky_def)

subsection \<open>The plugin chain\<close>

lemma call_dropped:
  assumes gate: "\<not> level_value (call_level c) < level_value (minLevel (config l))"
    and ps: "plugins (config l) = pre @ plugin # post"
    and pre: "log_plugins pre 0 (call_entry c now) w = (Returns (Some e), evs, w1)"
    and drop: "plugin e w1 = (Returned None, w2)"
  shows "call l c now w
           = \<lparr> returned = Returns Undefined, floating = Fulfilled,
               events = Created (call_entry c now) # evs @ [PluginCalled (length pre) e],
               world = w2 \<rparr>"
proof -
  have "log_plugins (plugins (config l)) 0 (call_entry c now) w
          = (Returns None, evs @ [PluginCalled (length pre) e], w2)"
    unfolding ps log_plugins_append [OF pre] using drop by simp
  with gate show ?thesis by (simp add: call_log fire_and_forget_def)
qed

lemma call_plugin_failed:
  assumes gate: "\<not> level_value (call_level c) < level_value (minLevel (config l))"
    and ps: "plugins (config l) = pre @ plugin # post"
    and pre: "log_plugins pre 0 (call_entry c now) w = (Returns (Some e), evs, w1)"
    and fail: "plugin e w1 = (PluginThrew err, w2) \<or> plugin e w1 = (PluginRejected err, w2)"
  shows "call l c now w
           = \<lparr> returned = Returns Undefined, floating = RejectedWith err,
               events = Created (call_entry c now) # evs @ [PluginCalled (length pre) e],
               world = w2 \<rparr>"
proof -
  have "log_plugins (plugins (config l)) 0 (call_entry c now) w
          = (Throws err, evs @ [PluginCalled (length pre) e], w2)"
    unfolding ps log_plugins_append [OF pre] using fail by auto
  with gate show ?thesis by (simp add: call_log fire_and_forget_def)
qed

lemma call_positions:
  "\<exists>m\<le>length (plugins (config l)). plugin_positions (events (call l c now w)) = [0..<m]"
proof (cases "level_value (call_level c) < level_value (minLevel (config l))")
  case True
  then have "plugin_positions (events (call l c now w)) = [0..<0]"
    by (simp add: call_log fire_and_forget_def)
  then show ?thesis by blast
next
  case False
  obtain r evs w1 where run: "log_plugins (plugins (config l)) 0 (call_entry c now) w = (r, evs, w1)"
    by (cases "log_plugins (plugins (config l)) 0 (call_entry c now) w")
  from log_plugins_events [OF run] obtain m where
    m: "m \<le> length (plugins (config l))" "plugin_positions evs = [0..<m]" by auto
  have "plugin_positions (events (call l c now w)) = plugin_positions evs"
  proof (cases r)
    case (Throws err)
    with False run show ?thesis by (simp add: call_log fire_and_forget_def)
  next
    case (Returns eo)
    show ?thesis
    proof (cases eo)
      case None
      with Returns False run show ?thesis by (simp add: call_log fire_and_forget_def)
    next
      case (Some e)
      obtain r2 s2 rep2 w2 where d: "dispatch_map (transports (config l)) e w1 = (r2, s2, rep2, w2)"
        by (cases "dispatch_map (transports (config l)) e w1")
      from dispatch_map_events [OF d] Returns Some False run d show ?thesis
        by (cases r2) (simp_all add: call_log fire_and_forget_def dispatch_def plugin_positions_append)
    qed
  qed
  with m show ?thesis by auto
qed

lemma plugin_positions_calls: "plugin_positions (plugin_calls k es) = [k..<k + length es]"
proof (induction es arbitrary: k)
  case Nil
  then show ?case by simp
next
  case (Cons e es)
  have "plugin_positions (plugin_calls k (e # es)) = k # [Suc k..<Suc k + length es]"
    using Cons.IH [of "Suc k"] by simp
  also have "\<dots> = [k..<k + Suc (length es)]" by (rule upt_shift [symmetric])
  finally show ?case by simp
qed

lemma send_calls_plugin_calls: "send_calls (plugin_calls k es) = []"
  by (induction es arbitrary: k) simp_all

lemma plugin_calls_snoc:
  "plugin_calls k (es @ [e]) = plugin_calls k es @ [PluginCalled (k + length es) e]"
  by (induction es arbitrary: k) simp_all

lemma chain_length: "chain ps sts \<Longrightarrow> length sts = Suc (length ps)"
  by (induction ps sts rule: chain.induct) simp_all

text \<open>
  When every plugin hands an entry on, the loop calls all of them, each with the entry
  the one before it returned and in the world it left, and ends with the last entry.
\<close>

lemma log_plugins_chain:
  "chain ps ((e, w) # sts) \<Longrightarrow>
   log_plugins ps k e w
     = (Returns (Some (fst (last ((e, w) # sts)))),
        plugin_calls k (map fst (butlast ((e, w) # sts))),
        snd (last ((e, w) # sts)))"
proof (induction ps arbitrary: k e w sts)
  case Nil
  then have "sts = []" by (cases sts) simp_all
  then show ?case by simp
next
  case (Cons p ps)
  then obtain s' rest where sts: "sts = s' # rest" by (cases sts) simp_all
  obtain e' w' where s': "s' = (e', w')" by (cases s')
  from Cons.prems sts s' have p: "p e w = (Returned (Some e'), w')" and c: "chain ps ((e', w') # rest)"
    by simp_all
  from Cons.IH [OF c, of "Suc k"] p sts s' show ?case by simp
qed

lemma call_passed:
  assumes gate: "\<not> level_value (call_level c) < level_value (minLevel (config l))"
    and run: "chain (plugins (config l)) ((call_entry c now, w) # sts)"
    and d: "dispatch l (fst (last ((call_entry c now, w) # sts)))
                       (snd (last ((call_entry c now, w) # sts))) = (r, evs', w')"
  shows "call l c now w
           = \<lparr> returned = Returns Undefined,
               floating = (case r of Returns u \<Rightarrow> Fulfilled | Throws err \<Rightarrow> RejectedWith err),
               events = Created (call_entry c now)
                          # plugin_calls 0 (map fst (butlast ((call_entry c now, w) # sts))) @ evs',
               world = w' \<rparr>"
  using gate log_plugins_chain [OF run, of 0] d
  by (cases r) (simp_all add: call_log fire_and_forget_def)

lemma dispatch_events:
  assumes d: "dispatch l e w = (r, evs, w')"
  shows "plugin_positions evs = []"
proof -
  obtain r2 s2 rep2 w2 where m: "dispatch_map (transports (config l)) e w = (r2, s2, rep2, w2)"
    by (cases "dispatch_map (transports (config l)) e w")
  with d have "evs = s2 @ rep2" by (simp add: dispatch_def)
  with dispatch_map_events [OF m] show ?thesis by (simp add: plugin_positions_append)
qed

text \<open>
  Claim C2, in three parts; \<open>chain\<close> says what the plugins do, the conclusions what
  the Logger does with them.

  In every logging call the plugins that run are those of the positions
  \<open>0, 1, ..., m - 1\<close> of the chain, in this order and each once.

  If the call passes the level gate and every plugin hands an entry on, each given what
  the one before it returned, then all plugins of the chain are called, in registration
  order, the plugin at position \<open>i\<close> with the entry the plugin at position \<open>i - 1\<close>
  returned and in the world it left (the first with the new entry), and after the last
  of them \<^verbatim>\<open>dispatch\<close> runs on the entry the last plugin returned; the outcome of the
  call is that of \<^verbatim>\<open>dispatch\<close>.

  If the call passes the level gate, the plugins before position \<open>k\<close> hand entries on
  in this way, and the plugin at position \<open>k\<close> returns \<^verbatim>\<open>null\<close> for the entry it gets,
  then the plugins at the positions \<open>0\<close> to \<open>k\<close> are called, in this order and with
  these entries, and none after \<open>k\<close>; \<^verbatim>\<open>send\<close> is called on no transport, the world is
  as the plugin at \<open>k\<close> left it, the promise of \<^verbatim>\<open>log\<close> fulfils and the logging method
  returns normally.
\<close>

theorem C2_plugin_chain:
  "(\<exists>m\<le>length (plugins (config l)). plugin_positions (events (call l c now w)) = [0..<m])
   \<and> (\<not> level_value (call_level c) < level_value (minLevel (config l))
      \<and> chain (plugins (config l)) ((call_entry c now, w) # sts)
      \<and> dispatch l (fst (last ((call_entry c now, w) # sts)))
                     (snd (last ((call_entry c now, w) # sts))) = (r, evs', w')
      \<longrightarrow> call l c now w
            = \<lparr> returned = Returns Undefined,
                floating = (case r of Returns u \<Rightarrow> Fulfilled | Throws err \<Rightarrow> RejectedWith err),
                events = Created (call_entry c now)
                           # plugin_calls 0 (map fst (butlast ((call_entry c now, w) # sts))) @ evs',
                world = w' \<rparr>
          \<and> plugin_positions (events (call l c now w)) = [0..<length (plugins (config l))])
   \<and> (\<not> level_value (call_level c) < level_value (minLevel (config l))
      \<and> plugins (config l) = pre @ plugin # post
      \<and> chain pre ((call_entry c now, w) # sts)
      \<and> plugin (fst (last ((call_entry c now, w) # sts))) (snd (last ((call_entry c now, w) # sts)))
          = (Returned None, w2)
      \<longrightarrow> call l c now w
            = \<lparr> returned = Returns Undefined, floating = Fulfilled,
                events = Created (call_entry c now)
                           # plugin_calls 0 (map fst ((call_entry c now, w) # sts)),
                world = w2 \<rparr>
          \<and> plugin_positions (events (call l c now w)) = [0..<Suc (length pre)]
          \<and> send_calls (events (call l c now w)) = [])"
proof (intro conjI impI)
  show "\<exists>m\<le>length (plugins (config l)). plugin_positions (events (call l c now w)) = [0..<m]"
    by (rule call_positions)
next
  let ?s0 = "(call_entry c now, w)"
  assume h: "\<not> level_value (call_level c) < level_value (minLevel (config l))
      \<and> chain (plugins (config l)) (?s0 # sts)
      \<and> dispatch l (fst (last (?s0 # sts))) (snd (last (?s0 # sts))) = (r, evs', w')"
  then have gate: "\<not> level_value (call_level c) < level_value (minLevel (config l))"
    and run: "chain (plugins (config l)) (?s0 # sts)"
    and d: "dispatch l (fst (last (?s0 # sts))) (snd (last (?s0 # sts))) = (r, evs', w')"
    by simp_all
  from gate run d show out: "call l c now w
            = \<lparr> returned = Returns Undefined,
                floating = (case r of Returns u \<Rightarrow> Fulfilled | Throws err \<Rightarrow> RejectedWith err),
                events = Created (call_entry c now) # plugin_calls 0 (map fst (butlast (?s0 # sts))) @ evs',
                world = w' \<rparr>"
    by (rule call_passed)
  from chain_length [OF run] have "length (?s0 # sts) = Suc (length (plugins (config l)))" .
  then have len: "length (map fst (butlast (?s0 # sts))) = length (plugins (config l))"
    by (simp only: length_map length_butlast diff_Suc_1)
  have "plugin_positions (events (call l c now w))
          = plugin_positions (plugin_calls 0 (map fst (butlast (?s0 # sts))))"
    unfolding out using dispatch_events [OF d] by (simp add: plugin_positions_append)
  also have "\<dots> = [0..<length (plugins (config l))]"
    by (simp only: plugin_positions_calls len add_0)
  finally show "plugin_positions (events (call l c now w)) = [0..<length (plugins (config l))]" .
next
  let ?s0 = "(call_entry c now, w)"
  assume h: "\<not> level_value (call_level c) < level_value (minLevel (config l))
      \<and> plugins (config l) = pre @ plugin # post
      \<and> chain pre (?s0 # sts)
      \<and> plugin (fst (last (?s0 # sts))) (snd (last (?s0 # sts))) = (Returned None, w2)"
  then have gate: "\<not> level_value (call_level c) < level_value (minLevel (config l))"
    and ps: "plugins (config l) = pre @ plugin # post"
    and run: "chain pre (?s0 # sts)"
    and drop: "plugin (fst (last (?s0 # sts))) (snd (last (?s0 # sts))) = (Returned None, w2)"
    by simp_all
  from chain_length [OF run] have len: "length sts = length pre" by simp
  from chain_length [OF run] have len': "length (map fst (butlast (?s0 # sts))) = length pre"
    by (simp only: length_map length_butlast diff_Suc_1)
  have split: "map fst (?s0 # sts) = map fst (butlast (?s0 # sts)) @ [fst (last (?s0 # sts))]"
    by (metis append_butlast_last_id list.distinct(1) list.simps(9) map_append list.simps(8))
  have calls: "plugin_calls 0 (map fst (?s0 # sts))
                 = plugin_calls 0 (map fst (butlast (?s0 # sts)))
                     @ [PluginCalled (length pre) (fst (last (?s0 # sts)))]"
    by (simp only: split plugin_calls_snoc len' add_0)
  from call_dropped [OF gate ps log_plugins_chain [OF run, of 0] drop]
  show out: "call l c now w
            = \<lparr> returned = Returns Undefined, floating = Fulfilled,
                events = Created (call_entry c now) # plugin_calls 0 (map fst (?s0 # sts)),
                world = w2 \<rparr>"
    unfolding calls by simp
  show "plugin_positions (events (call l c now w)) = [0..<Suc (length pre)]"
    unfolding out using plugin_positions_calls [of 0 "map fst (?s0 # sts)"] len by simp
  show "send_calls (events (call l c now w)) = []"
    unfolding out by (simp add: send_calls_plugin_calls)
qed

text \<open>
  The examples are the two calls of the spec's scenario, with one more plugin at the
  end: \<^verbatim>\<open>info("keep-me")\<close> on the chain \<open>[enrich, enrich]\<close> with one mock transport,
  where both plugins run and the transport gets the entry of the second; and
  \<^verbatim>\<open>info("skip-me")\<close> on the chain \<open>[enrich, blockAll, enrich]\<close>, where the third plugin
  does not run.
\<close>

theorem C2_plugin_chain_witness:
  "\<not> level_value (call_level (Info ''keep-me'' None))
       < level_value (minLevel (config (test_logger DEBUG [createMockTransport ''B''] [enrich, enrich])))
   \<and> chain (plugins (config (test_logger DEBUG [createMockTransport ''B''] [enrich, enrich])))
        ((call_entry (Info ''keep-me'' None) test_now, [])
         # [(LogEntry INFO ''keep-me'' test_now None (Some [(''enriched'', JBool True)]), []),
            (LogEntry INFO ''keep-me'' test_now None (Some [(''enriched'', JBool True)]), [])])
   \<and> dispatch (test_logger DEBUG [createMockTransport ''B''] [enrich, enrich])
        (LogEntry INFO ''keep-me'' test_now None (Some [(''enriched'', JBool True)])) []
       = (Returns (),
          [SendCalled ''B'' (LogEntry INFO ''keep-me'' test_now None (Some [(''enriched'', JBool True)]))],
          [(''B'', LogEntry INFO ''keep-me'' test_now None (Some [(''enriched'', JBool True)]))])
   \<and> call (test_logger DEBUG [createMockTransport ''B''] [enrich, enrich])
        (Info ''keep-me'' None) test_now []
       = \<lparr> returned = Returns Undefined, floating = Fulfilled,
           events = [Created (LogEntry INFO ''keep-me'' test_now None None),
                     PluginCalled 0 (LogEntry INFO ''keep-me'' test_now None None),
                     PluginCalled 1 (LogEntry INFO ''keep-me'' test_now None
                                       (Some [(''enriched'', JBool True)])),
                     SendCalled ''B'' (LogEntry INFO ''keep-me'' test_now None
                                         (Some [(''enriched'', JBool True)]))],
           world = [(''B'', LogEntry INFO ''keep-me'' test_now None (Some [(''enriched'', JBool True)]))] \<rparr>
   \<and> \<not> level_value (call_level (Info ''skip-me'' None))
       < level_value (minLevel (config (test_logger DEBUG [createMockTransport ''B''] [enrich, blockAll, enrich])))
   \<and> plugins (config (test_logger DEBUG [createMockTransport ''B''] [enrich, blockAll, enrich]))
       = [enrich] @ blockAll # [enrich]
   \<and> chain [enrich]
        ((call_entry (Info ''skip-me'' None) test_now, [])
         # [(LogEntry INFO ''skip-me'' test_now None (Some [(''enriched'', JBool True)]), [])])
   \<and> blockAll (LogEntry INFO ''skip-me'' test_now None (Some [(''enriched'', JBool True)])) []
       = (Returned None, [])
   \<and> call (test_logger DEBUG [createMockTransport ''B''] [enrich, blockAll, enrich])
        (Info ''skip-me'' None) test_now []
       = \<lparr> returned = Returns Undefined, floating = Fulfilled,
           events = [Created (LogEntry INFO ''skip-me'' test_now None None),
                     PluginCalled 0 (LogEntry INFO ''skip-me'' test_now None None),
                     PluginCalled 1 (LogEntry INFO ''skip-me'' test_now None
                                       (Some [(''enriched'', JBool True)]))],
           world = [] \<rparr>"
  using C2_plugin_chain
          [where l = "test_logger DEBUG [createMockTransport ''B''] [enrich, enrich]"
             and c = "Info ''keep-me'' None" and now = test_now and w = "[]"
             and sts = "[(LogEntry INFO ''keep-me'' test_now None (Some [(''enriched'', JBool True)]), []),
                         (LogEntry INFO ''keep-me'' test_now None (Some [(''enriched'', JBool True)]), [])]"
             and r = "Returns ()"
             and evs' = "[SendCalled ''B'' (LogEntry INFO ''keep-me'' test_now None
                                              (Some [(''enriched'', JBool True)]))]"
             and w' = "[(''B'', LogEntry INFO ''keep-me'' test_now None (Some [(''enriched'', JBool True)]))]"]
        C2_plugin_chain
          [where l = "test_logger DEBUG [createMockTransport ''B''] [enrich, blockAll, enrich]"
             and c = "Info ''skip-me'' None" and now = test_now and w = "[]"
             and pre = "[enrich]" and plugin = blockAll and post = "[enrich]"
             and sts = "[(LogEntry INFO ''skip-me'' test_now None (Some [(''enriched'', JBool True)]), [])]"
             and ?w2.0 = "[]"]
  by (simp add: test_defs createLogEntry_def enrich_def blockAll_def dispatch_def
        createMockTransport_def)

subsection \<open>The level gate\<close>

text \<open>
  Claim C3. A logging call whose level is strictly below \<^verbatim>\<open>minLevel\<close> does nothing:
  no entry is created (the record factory is not called), no plugin is called,
  \<^verbatim>\<open>send\<close> is called on no transport, the world is untouched, and the method returns
  normally.
\<close>

theorem C3_threshold_gate:
  "level_value (call_level c) < level_value (minLevel (config l)) \<Longrightarrow>
   call l c now w = \<lparr> returned = Returns Undefined, floating = Fulfilled, events = [], world = w \<rparr>"
  by (simp add: call_log fire_and_forget_def)

theorem C3_threshold_gate_witness:
  "level_value (call_level (Debug ''x'' None))
     < level_value (minLevel (config (test_logger INFO [createMockTransport ''B''] [enrich])))
   \<and> call (test_logger INFO [createMockTransport ''B''] [enrich]) (Debug ''x'' None) test_now []
       = \<lparr> returned = Returns Undefined, floating = Fulfilled, events = [], world = [] \<rparr>"
  using C3_threshold_gate
    [of "Debug ''x'' None" "test_logger INFO [createMockTransport ''B''] [enrich]" test_now "[]"]
  by (simp add: test_defs)

subsection \<open>A plugin that fails\<close>

text \<open>
  Claim C4, as the code has it. Let a call pass the level gate, the plugins before
  position \<open>k\<close> hand the entry \<open>e\<close> on, and the plugin at position \<open>k\<close> throw \<open>err\<close>
  or return a promise that rejects with \<open>err\<close>. Then no plugin after it is called and
  \<^verbatim>\<open>send\<close> is called on no transport: nothing is delivered. The error rejects the
  promise of \<^verbatim>\<open>log\<close>; the logging method, which is typed \<^verbatim>\<open>void\<close> and neither awaits
  nor returns that promise, returns normally, so its caller gets neither an exception
  nor a promise to catch.
\<close>

theorem C4_plugin_error:
  assumes "\<not> level_value (call_level c) < level_value (minLevel (config l))"
    and "plugins (config l) = pre @ plugin # post"
    and "log_plugins pre 0 (call_entry c now) w = (Returns (Some e), evs, w1)"
    and "plugin e w1 = (PluginThrew err, w2) \<or> plugin e w1 = (PluginRejected err, w2)"
  shows "call l c now w
           = \<lparr> returned = Returns Undefined, floating = RejectedWith err,
               events = Created (call_entry c now) # evs @ [PluginCalled (length pre) e],
               world = w2 \<rparr>
         \<and> send_calls (events (call l c now w)) = []"
proof -
  have out: "call l c now w
           = \<lparr> returned = Returns Undefined, floating = RejectedWith err,
               events = Created (call_entry c now) # evs @ [PluginCalled (length pre) e],
               world = w2 \<rparr>"
    using assms by (rule call_plugin_failed)
  from log_plugins_events [OF assms(3)] have "send_calls evs = []" by simp
  then have "send_calls (events (call l c now w)) = []"
    unfolding out by (simp add: send_calls_append)
  with out show ?thesis by simp
qed

theorem C4_plugin_error_witness:
  "\<not> level_value (call_level (ErrorCall ''Test'' None None))
       < level_value (minLevel (config (test_logger DEBUG [createMockTransport ''mock''] [enrich, brokenPlugin])))
   \<and> plugins (config (test_logger DEBUG [createMockTransport ''mock''] [enrich, brokenPlugin]))
       = [enrich] @ brokenPlugin # []
   \<and> log_plugins [enrich] 0 (call_entry (ErrorCall ''Test'' None None) test_now) []
       = (Returns (Some (LogEntry ERROR ''Test'' test_now None (Some [(''enriched'', JBool True)]))),
          [PluginCalled 0 (LogEntry ERROR ''Test'' test_now None None)], [])
   \<and> (brokenPlugin (LogEntry ERROR ''Test'' test_now None (Some [(''enriched'', JBool True)])) []
         = (PluginThrew (Error ''Plugin failed''), [])
       \<or> brokenPlugin (LogEntry ERROR ''Test'' test_now None (Some [(''enriched'', JBool True)])) []
         = (PluginRejected (Error ''Plugin failed''), []))
   \<and> call (test_logger DEBUG [createMockTransport ''mock''] [enrich, brokenPlugin])
        (ErrorCall ''Test'' None None) test_now []
       = \<lparr> returned = Returns Undefined, floating = RejectedWith (Error ''Plugin failed''),
           events = [Created (LogEntry ERROR ''Test'' test_now None None),
                     PluginCalled 0 (LogEntry ERROR ''Test'' test_now None None),
                     PluginCalled 1 (LogEntry ERROR ''Test'' test_now None
                                       (Some [(''enriched'', JBool True)]))],
           world = [] \<rparr>"
  using C4_plugin_error
    [of "ErrorCall ''Test'' None None"
        "test_logger DEBUG [createMockTransport ''mock''] [enrich, brokenPlugin]"
        "[enrich]" brokenPlugin "[]" test_now "[]"
        "LogEntry ERROR ''Test'' test_now None (Some [(''enriched'', JBool True)])"
        "[PluginCalled 0 (LogEntry ERROR ''Test'' test_now None None)]" "[]"
        "Error ''Plugin failed''" "[]"]
  by (simp add: test_defs createLogEntry_def enrich_def brokenPlugin_def)

text \<open>
  The claim as the spec words it asks that the error reach the caller, thrown or as a
  rejected promise the caller holds. With one plugin that throws, the method returns
  \<^verbatim>\<open>undefined\<close>: it neither throws that error nor returns a promise rejected with it.
\<close>

theorem C4_counterexample:
  "brokenPlugin (call_entry (ErrorCall ''Test'' None None) test_now) []
     = (PluginThrew (Error ''Plugin failed''), [])
   \<and> returned (call (test_logger DEBUG [createMockTransport ''mock''] [brokenPlugin])
                  (ErrorCall ''Test'' None None) test_now [])
       = Returns Undefined
   \<and> returned (call (test_logger DEBUG [createMockTransport ''mock''] [brokenPlugin])
                  (ErrorCall ''Test'' None None) test_now [])
       \<noteq> Throws (Error ''Plugin failed'')
   \<and> returned (call (test_logger DEBUG [createMockTransport ''mock''] [brokenPlugin])
                  (ErrorCall ''Test'' None None) test_now [])
       \<noteq> Returns (PromiseOf (RejectedWith (Error ''Plugin failed'')))"
  by (simp add: test_defs method_defs log_def Let_def brokenPlugin_def)

subsection \<open>A transport that throws before it returns a promise\<close>

text \<open>
  When \<^verbatim>\<open>send\<close> of a transport throws, \<^verbatim>\<open>map\<close> ends there: whatever transports are
  registered after it are not reached.
\<close>

lemma dispatch_map_threw:
  assumes "dispatch_map pre e w = (Returns (), sends, reports, w1)"
    and "send t e w1 = (SendThrew err, w2)"
  shows "dispatch_map (pre @ t # post) e w
           = (Throws err, sends @ [SendCalled (name t) e], reports, w2)"
  using dispatch_map_append [OF assms(1), of "t # post"] assms(2) by simp

text \<open>
  Claim C5 asks that a \<^verbatim>\<open>send\<close> which throws synchronously be contained like a
  rejected promise. The code does not do that: the \<^verbatim>\<open>catch\<close> handler is attached to
  the promise \<^verbatim>\<open>send\<close> returns, and a \<^verbatim>\<open>send\<close> that throws returns none. With the
  transports \<open>throwing\<close> and a mock registered in this order, \<^verbatim>\<open>send\<close> of the mock
  is never called (its \<^verbatim>\<open>entries\<close> stay empty), \<^verbatim>\<open>console.error\<close> is not called, and
  the error rejects the promise of \<^verbatim>\<open>log\<close>. The logging method itself returns
  normally.
\<close>

theorem C5_synchronous_throw:
  "call (test_logger DEBUG [throwing, createMockTransport ''working''] [])
        (ErrorCall ''Test'' None None) test_now []
     = \<lparr> returned = Returns Undefined, floating = RejectedWith (Error ''Not connected''),
         events = [Created (LogEntry ERROR ''Test'' test_now None None),
                   SendCalled ''throwing'' (LogEntry ERROR ''Test'' test_now None None)],
         world = [] \<rparr>"
  by (simp add: test_defs method_defs log_def Let_def dispatch_def createLogEntry_def
        throwing_def createMockTransport_def)

subsection \<open>Registering a transport\<close>

text \<open>
  Claim C6. If a transport of the same name is already registered, \<^verbatim>\<open>addTransport\<close>
  throws (the spec's DuplicateBackendError is the \<^verbatim>\<open>Error\<close> with the text "Transport
  with name ... is already registered.") and the Logger is as before, so every registered
  transport keeps its place. Otherwise it returns and the new transport stands at the
  end of the list, after the old ones in their old order.
\<close>

theorem C6_addTransport:
  "(name transport \<in> name ` set (transports (config l)) \<longrightarrow>
      addTransport transport l
        = (Throws (Error (''Transport with name \"'' @ name transport @ ''\" is already registered.'')), l))
   \<and> (name transport \<notin> name ` set (transports (config l)) \<longrightarrow>
      addTransport transport l
        = (Returns (), l\<lparr>config := (config l)\<lparr>transports := transports (config l) @ [transport]\<rparr>\<rparr>))"
proof (cases "name transport \<in> name ` set (transports (config l))")
  case True
  then have "list_ex (\<lambda>t. name t = name transport) (transports (config l))"
    by (auto simp: list_ex_iff)
  with True show ?thesis by (simp add: addTransport_def)
next
  case False
  then have "\<not> list_ex (\<lambda>t. name t = name transport) (transports (config l))"
    by (metis (mono_tags, lifting) imageI list_ex_iff)
  with False show ?thesis by (simp add: addTransport_def)
qed

theorem C6_addTransport_witness:
  "name (createMockTransport ''http'')
     \<in> name ` set (transports (config (test_logger DEBUG [createMockTransport ''http'', failing] [])))
   \<and> addTransport (createMockTransport ''http'') (test_logger DEBUG [createMockTransport ''http'', failing] [])
       = (Throws (Error ''Transport with name \"http\" is already registered.''),
          test_logger DEBUG [createMockTransport ''http'', failing] [])
   \<and> name (createMockTransport ''file'')
     \<notin> name ` set (transports (config (test_logger DEBUG [createMockTransport ''http'', failing] [])))
   \<and> fst (addTransport (createMockTransport ''file'')
         (test_logger DEBUG [createMockTransport ''http'', failing] [])) = Returns ()
   \<and> map name (transports (config (snd (addTransport (createMockTransport ''file'')
         (test_logger DEBUG [createMockTransport ''http'', failing] [])))))
       = [''http'', ''failing'', ''file'']"
  using C6_addTransport
          [of "createMockTransport ''http''" "test_logger DEBUG [createMockTransport ''http'', failing] []"]
        C6_addTransport
          [of "createMockTransport ''file''" "test_logger DEBUG [createMockTransport ''http'', failing] []"]
  by (simp add: test_defs createMockTransport_def failing_def)

subsection \<open>The singleton\<close>

lemma lifecycle_run_active:
  "instance S = Some l \<Longrightarrow> Reset \<notin> set ops \<Longrightarrow> lifecycle_run u ops S = S"
proof (induction ops)
  case Nil
  then show ?case by simp
next
  case (Cons op ops)
  then show ?case by (cases op) (simp_all add: init_def)
qed

lemma reset_uninitialized: "instance S = None \<Longrightarrow> reset S = S"
  by (cases S) (simp add: reset_def)

lemma lifecycle_run_uninitialized:
  "instance S = None \<Longrightarrow> set ops \<subseteq> {GetInstance, Reset} \<Longrightarrow> lifecycle_run u ops S = S"
proof (induction ops)
  case Nil
  then show ?case by simp
next
  case (Cons op ops)
  then show ?case by (cases op) (simp_all add: reset_uninitialized)
qed

text \<open>
  Claim C7. After an \<^verbatim>\<open>init\<close> that succeeded and gave the instance \<open>l\<close>, and after any
  further static calls with no \<^verbatim>\<open>reset\<close> among them, \<^verbatim>\<open>init\<close> throws (the spec's
  AlreadyInitializedError is the \<^verbatim>\<open>Error\<close> with the text "Logger is already
  initialized. ..."), and the static field is as the first \<^verbatim>\<open>init\<close> left it: it holds
  \<open>l\<close>, whose configuration is the one resolved from the first call's argument.
\<close>

theorem C7_init_twice:
  assumes "init u cfg S0 = (Returns l, S1)" and "Reset \<notin> set ops"
  shows "init u cfg' (lifecycle_run u ops S1)
           = (Throws (Error ''Logger is already initialized. Call Logger.getInstance() to get the existing instance.''),
              S1)
         \<and> instance S1 = Some l \<and> l = Logger_new u cfg"
proof -
  from assms(1) have act: "instance S1 = Some l" and new: "l = Logger_new u cfg"
    by (auto simp: init_def Let_def split: option.splits)
  from act assms(2) have "lifecycle_run u ops S1 = S1" by (rule lifecycle_run_active)
  with act new show ?thesis by (simp add: init_def)
qed

theorem C7_init_twice_witness:
  "init test_uuidv4 (test_config INFO [createMockTransport ''B''] []) \<lparr> instance = None \<rparr>
     = (Returns (test_logger INFO [createMockTransport ''B''] []),
        \<lparr> instance = Some (test_logger INFO [createMockTransport ''B''] []) \<rparr>)
   \<and> Reset \<notin> set [GetInstance, Init (test_config DEBUG [failing] [blockAll]), GetInstance]
   \<and> init test_uuidv4 (test_config DEBUG [] [])
        (lifecycle_run test_uuidv4 [GetInstance, Init (test_config DEBUG [failing] [blockAll]), GetInstance]
           \<lparr> instance = Some (test_logger INFO [createMockTransport ''B''] []) \<rparr>)
       = (Throws (Error ''Logger is already initialized. Call Logger.getInstance() to get the existing instance.''),
          \<lparr> instance = Some (test_logger INFO [createMockTransport ''B''] []) \<rparr>)"
  using C7_init_twice
    [of test_uuidv4 "test_config INFO [createMockTransport ''B''] []" "\<lparr> instance = None \<rparr>"
        "test_logger INFO [createMockTransport ''B''] []"
        "\<lparr> instance = Some (test_logger INFO [createMockTransport ''B''] []) \<rparr>"
        "[GetInstance, Init (test_config DEBUG [failing] [blockAll]), GetInstance]"
        "test_config DEBUG [] []"]
  by (simp add: init_def Let_def test_logger_def)

text \<open>
  Claim C8. With no instance, \<^verbatim>\<open>getInstance\<close> throws (the spec's NotInitializedError is
  the \<^verbatim>\<open>Error\<close> with the text "Logger is not initialized. ...") and \<^verbatim>\<open>reset\<close> changes
  nothing. After \<^verbatim>\<open>reset\<close>, from any state, and after any further calls of
  \<^verbatim>\<open>getInstance\<close> and \<^verbatim>\<open>reset\<close>, \<^verbatim>\<open>getInstance\<close> still throws; the next \<^verbatim>\<open>init\<close>
  succeeds and returns a new instance made from its argument, and \<^verbatim>\<open>getInstance\<close> then
  returns that instance.
\<close>

theorem C8_lifecycle:
  "(instance S = None \<longrightarrow>
      getInstance S = Throws (Error ''Logger is not initialized. Call Logger.init(config) first.'')
      \<and> reset S = S)
   \<and> (set ops \<subseteq> {GetInstance, Reset} \<longrightarrow>
      getInstance (lifecycle_run u ops (reset S))
        = Throws (Error ''Logger is not initialized. Call Logger.init(config) first.'')
      \<and> fst (init u cfg (lifecycle_run u ops (reset S))) = Returns (Logger_new u cfg)
      \<and> getInstance (snd (init u cfg (lifecycle_run u ops (reset S)))) = Returns (Logger_new u cfg))"
proof -
  have r: "instance (reset S) = None" by (simp add: reset_def)
  have "set ops \<subseteq> {GetInstance, Reset} \<Longrightarrow> lifecycle_run u ops (reset S) = reset S"
    using r by (rule lifecycle_run_uninitialized)
  with r show ?thesis by (auto simp: getInstance_def init_def Let_def reset_uninitialized)
qed

theorem C8_lifecycle_witness:
  "instance (\<lparr> instance = None \<rparr> :: test_world Logger_static) = None
   \<and> getInstance (\<lparr> instance = None \<rparr> :: test_world Logger_static)
       = Throws (Error ''Logger is not initialized. Call Logger.init(config) first.'')
   \<and> reset (\<lparr> instance = None \<rparr> :: test_world Logger_static) = \<lparr> instance = None \<rparr>
   \<and> set [GetInstance, Reset, GetInstance] \<subseteq> {GetInstance, Reset :: test_world lifecycle_op}
   \<and> getInstance (lifecycle_run test_uuidv4 [GetInstance, Reset, GetInstance]
        (reset \<lparr> instance = Some (test_logger INFO [createMockTransport ''B''] []) \<rparr>))
       = Throws (Error ''Logger is not initialized. Call Logger.init(config) first.'')
   \<and> getInstance (snd (init test_uuidv4 (test_config DEBUG [failing] [])
        (lifecycle_run test_uuidv4 [GetInstance, Reset, GetInstance]
           (reset \<lparr> instance = Some (test_logger INFO [createMockTransport ''B''] []) \<rparr>))))
       = Returns (test_logger DEBUG [failing] [])"
  using C8_lifecycle
          [of "\<lparr> instance = None \<rparr> :: test_world Logger_static" "[]" test_uuidv4
              "test_config DEBUG [failing] []"]
        C8_lifecycle
          [of "\<lparr> instance = Some (test_logger INFO [createMockTransport ''B''] []) \<rparr>"
              "[GetInstance, Reset, GetInstance]" test_uuidv4 "test_config DEBUG [failing] []"]
  by (simp add: test_logger_def)

subsection \<open>The unused ID generator\<close>

lemma dispatch_generateId:
  "dispatch (l\<lparr>config := (config l)\<lparr>generateId := g\<rparr>\<rparr>) entry w = dispatch l entry w"
  by (simp add: dispatch_def)

lemma log_generateId:
  "log (l\<lparr>config := (config l)\<lparr>generateId := g\<rparr>\<rparr>) lvl msg err ctx now w = log l lvl msg err ctx now w"
  unfolding log_def dispatch_generateId by simp

lemma call_generateId:
  "call (l\<lparr>config := (config l)\<lparr>generateId := g\<rparr>\<rparr>) c now w = call l c now w"
  by (cases c) (simp_all add: debug_def info_def warn_def Logger_error_def fatal_def log_generateId)

lemma calls_generateId:
  "calls (l\<lparr>config := (config l)\<lparr>generateId := g\<rparr>\<rparr>) cs w = calls l cs w"
  by (induction cs arbitrary: w) (auto simp: call_generateId Let_def)

lemma Logger_new_generateId:
  "Logger_new u (cfg\<lparr>generateId_opt := g_opt\<rparr>)
     = (Logger_new u' cfg)\<lparr>config := (config (Logger_new u' cfg))
          \<lparr>generateId := (case g_opt of None \<Rightarrow> u | Some g \<Rightarrow> g)\<rparr>\<rparr>"
  by (simp add: Logger_new_def resolveConfig_def)

text \<open>
  Claim C9. Two Loggers made from configurations that differ only in \<^verbatim>\<open>generateId\<close>
  (given or absent, and whatever \<^verbatim>\<open>uuidv4\<close> is) behave alike on every sequence of
  logging calls: the same return values, the same promises, the same entries created and
  delivered, the same effect on the world. The same holds when the stored function of
  any Logger is replaced. The function is stored (the one given, else \<^verbatim>\<open>uuidv4\<close>) and
  never called; an entry has the five fields \<^verbatim>\<open>level\<close>, \<^verbatim>\<open>message\<close>, \<^verbatim>\<open>timestamp\<close>,
  \<^verbatim>\<open>error\<close> and \<^verbatim>\<open>context\<close> and no id.
\<close>

theorem C9_generateId_unused:
  "calls (Logger_new u (cfg\<lparr>generateId_opt := g_opt\<rparr>)) cs w = calls (Logger_new u' cfg) cs w
   \<and> calls (l\<lparr>config := (config l)\<lparr>generateId := g\<rparr>\<rparr>) cs w = calls l cs w
   \<and> generateId (config (Logger_new u cfg)) = (case generateId_opt cfg of None \<Rightarrow> u | Some g \<Rightarrow> g)"
proof -
  have "calls (Logger_new u (cfg\<lparr>generateId_opt := g_opt\<rparr>)) cs w = calls (Logger_new u' cfg) cs w"
    unfolding Logger_new_generateId [where u' = u'] by (rule calls_generateId)
  moreover have "generateId (config (Logger_new u cfg)) = (case generateId_opt cfg of None \<Rightarrow> u | Some g \<Rightarrow> g)"
    by (simp add: Logger_new_def resolveConfig_def)
  ultimately show ?thesis by (simp add: calls_generateId)
qed

subsection \<open>FATAL entries on the console transport\<close>

lemma send_FATAL:
  "level entry = FATAL \<Longrightarrow>
   \<exists>cause. ConsoleTransport_send options entry con
     = (SendRejected (TransportError ''ConsoleTransport failed to send entry'' ''console'' entry cause), con)"
  by (simp add: ConsoleTransport_send_def send_try_def split: option.splits js_result.splits)

lemma resolveConsoleMethod_None: "resolveConsoleMethod lvl = None \<longleftrightarrow> lvl = FATAL"
  by (cases lvl) simp_all

lemma fatal_console:
  assumes "plugins (config l) = []" and "transports (config l) = [ConsoleTransport options]"
  shows "\<exists>cause. fatal l msg err ctx now con
           = \<lparr> returned = Returns Undefined, floating = Fulfilled,
               events = [Created (call_entry (Fatal msg err ctx) now),
                         SendCalled ''console'' (call_entry (Fatal msg err ctx) now),
                         ConsoleError ''[Logger] Transport \"console\" failed:''
                           (TransportError ''ConsoleTransport failed to send entry'' ''console''
                              (call_entry (Fatal msg err ctx) now) cause)],
               world = con \<rparr>"
proof -
  let ?e = "call_entry (Fatal msg err ctx) now"
  have "level ?e = FATAL" by (simp add: createLogEntry_def)
  then obtain cause where
    "ConsoleTransport_send options ?e con
       = (SendRejected (TransportError ''ConsoleTransport failed to send entry'' ''console'' ?e cause), con)"
    using send_FATAL by blast
  with assms have "fatal l msg err ctx now con
           = \<lparr> returned = Returns Undefined, floating = Fulfilled,
               events = [Created ?e, SendCalled ''console'' ?e,
                         ConsoleError ''[Logger] Transport \"console\" failed:''
                           (TransportError ''ConsoleTransport failed to send entry'' ''console'' ?e cause)],
               world = con \<rparr>"
    by (cases "minLevel (config l)")
       (simp_all add: fatal_def fire_and_forget_def log_def Let_def dispatch_def ConsoleTransport_def)
  then show ?thesis by blast
qed

text \<open>
  Claim C10. For every entry of level FATAL, \<^verbatim>\<open>send\<close> of the console transport gives a
  promise that rejects with a \<^verbatim>\<open>TransportError\<close> and prints nothing, whatever the
  formatter: \<^verbatim>\<open>resolveConsoleMethod\<close> gives \<^verbatim>\<open>undefined\<close> for FATAL and for no other
  level. The public method \<^verbatim>\<open>fatal\<close> makes such entries: on a Logger with no plugins
  and the console transport alone, \<^verbatim>\<open>fatal\<close> creates a FATAL entry, sends it to the
  console transport, and the only output is the \<^verbatim>\<open>console.error\<close> report that the
  transport "console" failed with that \<^verbatim>\<open>TransportError\<close>.
\<close>

theorem C10_console_fatal:
  "(level entry = FATAL \<longrightarrow>
      (\<exists>cause. ConsoleTransport_send options entry con
         = (SendRejected (TransportError ''ConsoleTransport failed to send entry'' ''console'' entry cause), con)))
   \<and> (resolveConsoleMethod lvl = None \<longleftrightarrow> lvl = FATAL)
   \<and> (plugins (config l) = [] \<and> transports (config l) = [ConsoleTransport options] \<longrightarrow>
      (\<exists>cause. fatal l msg err ctx now con
           = \<lparr> returned = Returns Undefined, floating = Fulfilled,
               events = [Created (call_entry (Fatal msg err ctx) now),
                         SendCalled ''console'' (call_entry (Fatal msg err ctx) now),
                         ConsoleError ''[Logger] Transport \"console\" failed:''
                           (TransportError ''ConsoleTransport failed to send entry'' ''console''
                              (call_entry (Fatal msg err ctx) now) cause)],
               world = con \<rparr>))"
  using send_FATAL [of entry options con] resolveConsoleMethod_None [of lvl]
        fatal_console [of l options msg err ctx now con]
  by blast

theorem C10_console_fatal_witness:
  "level (LogEntry FATAL ''Out of memory'' test_now None None) = FATAL
   \<and> ConsoleTransport_send \<lparr> formatter = None \<rparr> (LogEntry FATAL ''Out of memory'' test_now None None) []
       = (SendRejected (TransportError ''ConsoleTransport failed to send entry'' ''console''
            (LogEntry FATAL ''Out of memory'' test_now None None)
            (TypeError ''consoleMethod is not a function'')), [])
   \<and> plugins (config quickstart_logger) = []
   \<and> transports (config quickstart_logger) = [ConsoleTransport \<lparr> formatter = None \<rparr>]
   \<and> fatal quickstart_logger ''Out of memory'' None None test_now []
       = \<lparr> returned = Returns Undefined, floating = Fulfilled,
           events = [Created (LogEntry FATAL ''Out of memory'' test_now None None),
                     SendCalled ''console'' (LogEntry FATAL ''Out of memory'' test_now None None),
                     ConsoleError ''[Logger] Transport \"console\" failed:''
                       (TransportError ''ConsoleTransport failed to send entry'' ''console''
                          (LogEntry FATAL ''Out of memory'' test_now None None)
                          (TypeError ''consoleMethod is not a function''))],
           world = [] \<rparr>"
  using C10_console_fatal
    [of "LogEntry FATAL ''Out of memory'' test_now None None" "\<lparr> formatter = None \<rparr>" "[]" FATAL
        quickstart_logger "''Out of memory''" None None test_now]
  by (simp add: quickstart_logger_def Logger_new_def resolveConfig_def fatal_def fire_and_forget_def
        log_def Let_def dispatch_def ConsoleTransport_def ConsoleTransport_send_def send_try_def
        createLogEntry_def)

end
